theory Spec2Isabelle
  imports Main "HOL-Library.Word"
begin

section \<open>Data model of the language server (langserver/handler.go)\<close>

text \<open>
  Go's \<open>int\<close> is a 64-bit two's-complement integer on the platforms the server is built
  for; arithmetic on it wraps around. Go strings are byte sequences, as \<open>string\<close> is.
\<close>

type_synonym go_int = "64 word"

datatype error =
    LibError string
  | OnlyFileURIs string
  | DocumentNotFound string
  | CodeInvalidParams

text \<open>
  \<open>LintErrorFormats\<close> is a slice: \<open>None\<close> is the nil slice (the key is unset in the
  configuration file), \<open>Some fs\<close> a slice holding \<open>fs\<close>.
\<close>

record Config =
  LintErrorFormats :: "string list option"
  LintStdin :: bool
  LintOffset :: go_int
  LintCommand :: string

text \<open>The zero value \<open>Config{}\<close>, also what a Go map returns for a missing key.\<close>

definition Config_zero :: Config where
  "Config_zero =
     \<lparr>LintErrorFormats = None, LintStdin = False, LintOffset = 0, LintCommand = []\<rparr>"

record File =
  LanguageId :: string
  Text :: string

text \<open>The two fields of \<open>url.URL\<close> that the handler reads and writes.\<close>

record URL =
  Scheme :: string
  Path :: string

text \<open>The fields of \<open>errorformat.Match\<close> that the handler reads and writes.\<close>

record Match =
  F :: string
  L :: go_int
  C :: go_int
  M :: string

record Position =
  Line :: go_int
  Character :: go_int

record Range =
  Start :: Position
  End :: Position

record Diagnostic =
  Range :: Range
  Message :: string
  Severity :: go_int

text \<open>
  The handler. \<open>configs\<close> is the map from language identifier to configuration, kept as an
  association list so that \<open>NewHandler\<close> can range over it; \<open>files\<close> is the document
  store; \<open>request\<close> records, in order, the URIs sent on the request channel.
\<close>

record langHandler =
  configs :: "(string \<times> Config) list"
  files :: "string \<rightharpoonup> File"
  request :: "string list"

text \<open>
  What the handler calls outside this repository, taken as parameters:
  \<^item> \<open>windows\<close>: \<open>runtime.GOOS == "windows"\<close>;
  \<^item> \<open>ParseRequestURI\<close>: \<open>url.ParseRequestURI\<close>;
  \<^item> \<open>NewErrorformat\<close>: \<open>errorformat.NewErrorformat\<close>, returning the field \<open>Efms\<close> of
    its result;
  \<^item> \<open>Efm_Match\<close>: the method \<open>Match\<close> of a compiled pattern, \<open>None\<close> for nil;
  \<^item> \<open>CombinedOutput\<close>: running the argument vector with the given standard input
    (\<open>None\<close> when none is attached), returning the captured bytes and the error
    (\<open>None\<close> for nil, that is exit status 0);
  \<^item> \<open>Abs\<close>: \<open>filepath.Abs\<close>;
  \<^item> \<open>ToLower\<close>: \<open>strings.ToLower\<close>.
\<close>

record 'efm Env =
  windows :: bool
  ParseRequestURI :: "string \<Rightarrow> error + URL"
  NewErrorformat :: "string list option \<Rightarrow> error + 'efm list"
  Efm_Match :: "'efm \<Rightarrow> string \<Rightarrow> Match option"
  CombinedOutput :: "string list \<Rightarrow> string option \<Rightarrow> string \<times> error option"
  Abs :: "string \<Rightarrow> error + string"
  ToLower :: "string \<Rightarrow> string"

section \<open>Paths and URIs\<close>

text \<open>
  \<open>unicode.IsLetter(rune(b))\<close> for a byte \<open>b\<close>: the rune is the Latin-1 code point with
  that number, and the letters among those are A-Z, a-z, U+00AA, U+00B5, U+00BA,
  U+00C0-U+00D6, U+00D8-U+00F6 and U+00F8-U+00FF.
\<close>

definition IsLetter :: "char \<Rightarrow> bool" where
  "IsLetter c =
     (let n = (of_char c :: nat) in
        (65 \<le> n \<and> n \<le> 90) \<or> (97 \<le> n \<and> n \<le> 122) \<or> n = 170 \<or> n = 181 \<or> n = 186
        \<or> (192 \<le> n \<and> n \<le> 214) \<or> (216 \<le> n \<and> n \<le> 246) \<or> (248 \<le> n \<and> n \<le> 255))"

definition isWindowsDrivePath :: "string \<Rightarrow> bool" where
  "isWindowsDrivePath path =
     (if length path < 4 then False
      else IsLetter (path ! 0) \<and> path ! 1 = CHR '':'')"

definition isWindowsDriveURI :: "string \<Rightarrow> bool" where
  "isWindowsDriveURI uri =
     (if length uri < 4 then False
      else uri ! 0 = CHR ''/'' \<and> IsLetter (uri ! 1) \<and> uri ! 2 = CHR '':'')"

text \<open>
  \<open>filepath.ToSlash\<close>: replaces the platform's separator by a slash, so it replaces every
  backslash on Windows and changes nothing elsewhere.
\<close>

definition ToSlash :: "bool \<Rightarrow> string \<Rightarrow> string" where
  "ToSlash win path =
     (if win then map (\<lambda>c. if c = CHR 0x5C then CHR ''/'' else c) path else path)"

definition fromURI :: "'efm Env \<Rightarrow> string \<Rightarrow> error + string" where
  "fromURI env uri =
     (case ParseRequestURI env uri of
        Inl err \<Rightarrow> Inl err
      | Inr u \<Rightarrow>
          if Scheme u \<noteq> ''file'' then Inl (OnlyFileURIs (Scheme u))
          else if isWindowsDriveURI (Path u) then Inr (drop 1 (Path u))
          else Inr (Path u))"

definition toURI :: "bool \<Rightarrow> string \<Rightarrow> URL" where
  "toURI win path =
     (let path = (if isWindowsDrivePath path then ''/'' @ path else path)
      in \<lparr>Scheme = ''file'', Path = ToSlash win path\<rparr>)"

section \<open>The document store\<close>

definition closeFile :: "langHandler \<Rightarrow> string \<Rightarrow> (error + unit) \<times> langHandler" where
  "closeFile h uri = (Inr (), h\<lparr>files := (files h)(uri := None)\<rparr>)"

definition saveFile :: "langHandler \<Rightarrow> string \<Rightarrow> (error + unit) \<times> langHandler" where
  "saveFile h uri = (Inr (), h\<lparr>request := request h @ [uri]\<rparr>)"

definition openFile :: "langHandler \<Rightarrow> string \<Rightarrow> string \<Rightarrow> (error + unit) \<times> langHandler" where
  "openFile h uri languageId =
     (let f = \<lparr>LanguageId = languageId, Text = []\<rparr>
      in (Inr (), h\<lparr>files := (files h)(uri \<mapsto> f)\<rparr>))"

definition updateFile :: "langHandler \<Rightarrow> string \<Rightarrow> string \<Rightarrow> (error + unit) \<times> langHandler" where
  "updateFile h uri text =
     (case files h uri of
        None \<Rightarrow> (Inl (DocumentNotFound uri), h)
      | Some f \<Rightarrow>
          (let h1 = h\<lparr>files := (files h)(uri \<mapsto> f\<lparr>Text := text\<rparr>)\<rparr>
           in (Inr (), h1\<lparr>request := request h1 @ [uri]\<rparr>)))"

definition configFor :: "langHandler \<Rightarrow> string \<Rightarrow> Config" where
  "configFor h uri =
     (case files h uri of
        None \<Rightarrow> Config_zero
      | Some f \<Rightarrow>
          (case map_of (configs h) (LanguageId f) of
             None \<Rightarrow> Config_zero
           | Some c \<Rightarrow> c))"

section \<open>Construction of the handler\<close>

text \<open>
  The loop of \<open>NewHandler\<close>: \<open>for _, v := range configs\<close> binds \<open>v\<close> to a copy of each
  value, and the assignment in the body changes that copy only. \<open>len\<close> of a slice is
  compared with \<open>-1\<close> as the source does.
\<close>

definition default_formats :: "string list" where
  "default_formats = [''%f:%l:%m'', ''%f:%l:%c:%m'']"

definition len_formats :: "string list option \<Rightarrow> int" where
  "len_formats fs = (case fs of None \<Rightarrow> 0 | Some l \<Rightarrow> int (length l))"

fun NewHandler_range ::
  "(string \<times> Config) list \<Rightarrow> (string \<times> Config) list \<Rightarrow> (string \<times> Config) list" where
  "NewHandler_range [] cfgs = cfgs"
| "NewHandler_range ((k, v) # rest) cfgs =
     (let v = (if LintErrorFormats v = None \<or> len_formats (LintErrorFormats v) = - 1
               then v\<lparr>LintErrorFormats := Some default_formats\<rparr> else v)
      in NewHandler_range rest cfgs)"

definition NewHandler :: "(string \<times> Config) list \<Rightarrow> langHandler" where
  "NewHandler cs =
     (let cs = NewHandler_range cs cs
      in \<lparr>configs = cs, files = Map.empty, request = []\<rparr>)"

section \<open>Linting\<close>

text \<open>\<open>strings.Split(s, "\n")\<close>: the pieces between newlines; one empty piece for \<open>""\<close>.\<close>

fun Split_newline :: "string \<Rightarrow> string list" where
  "Split_newline [] = [[]]"
| "Split_newline (c # cs) =
     (if c = CHR 0x0A then [] # Split_newline cs
      else (case Split_newline cs of
              [] \<Rightarrow> [[c]]
            | l # ls \<Rightarrow> (c # l) # ls))"

text \<open>
  The body of the inner loop of \<open>lint\<close> once a pattern has matched (lines 154-180):
  \<open>None\<close> is \<open>continue\<close>, \<open>Some d\<close> is the diagnostic appended.
\<close>

definition lint_match :: "'efm Env \<Rightarrow> Config \<Rightarrow> string \<Rightarrow> Match \<Rightarrow> Diagnostic option" where
  "lint_match env config fname m0 =
     (let m = (if LintStdin config \<and> (F m0 = ''stdin'' \<or> F m0 = ''-'')
               then m0\<lparr>F := fname\<rparr>
               else m0\<lparr>F := ToSlash (windows env) (F m0)\<rparr>);
          m = (if C m = 0 then m\<lparr>C := 1\<rparr> else m)
      in case Abs env (F m) of
           Inl err \<Rightarrow> None
         | Inr path \<Rightarrow>
             (let path = ToSlash (windows env) path;
                  path = (if windows env then ToLower env path else path)
              in if path \<noteq> fname then None
                 else Some
                   \<lparr>Range =
                      \<lparr>Start = \<lparr>Line = L m - 1 - LintOffset config, Character = C m - 1\<rparr>,
                       End = \<lparr>Line = L m - 1 - LintOffset config, Character = C m - 1\<rparr>\<rparr>,
                    Message = M m,
                    Severity = 1\<rparr>))"

text \<open>The inner loop, over the compiled patterns, for one line.\<close>

fun lint_efms ::
  "'efm Env \<Rightarrow> Config \<Rightarrow> string \<Rightarrow> string \<Rightarrow> 'efm list \<Rightarrow> Diagnostic list \<Rightarrow> Diagnostic list"
where
  "lint_efms env config fname line [] diagnostics = diagnostics"
| "lint_efms env config fname line (ef # efs) diagnostics =
     (case Efm_Match env ef line of
        None \<Rightarrow> lint_efms env config fname line efs diagnostics
      | Some m \<Rightarrow>
          (case lint_match env config fname m of
             None \<Rightarrow> lint_efms env config fname line efs diagnostics
           | Some d \<Rightarrow> lint_efms env config fname line efs (diagnostics @ [d])))"

text \<open>The outer loop, over the lines of the output.\<close>

fun lint_lines ::
  "'efm Env \<Rightarrow> Config \<Rightarrow> string \<Rightarrow> 'efm list \<Rightarrow> string list \<Rightarrow> Diagnostic list \<Rightarrow> Diagnostic list"
where
  "lint_lines env config fname efms [] diagnostics = diagnostics"
| "lint_lines env config fname efms (line # lines) diagnostics =
     lint_lines env config fname efms lines (lint_efms env config fname line efms diagnostics)"

text \<open>The name under which \<open>lint\<close> compares paths: lines 115-123.\<close>

definition lint_fname :: "'efm Env \<Rightarrow> string \<Rightarrow> error + string" where
  "lint_fname env uri =
     (case fromURI env uri of
        Inl err \<Rightarrow> Inl err
      | Inr fname \<Rightarrow>
          (let fname = ToSlash (windows env) fname
           in Inr (if windows env then ToLower env fname else fname)))"

definition lint_argv :: "'efm Env \<Rightarrow> Config \<Rightarrow> string list" where
  "lint_argv env config =
     (if windows env then [''cmd'', ''/c'', LintCommand config]
      else [''sh'', ''-c'', LintCommand config])"

definition lint_stdin :: "Config \<Rightarrow> File \<Rightarrow> string option" where
  "lint_stdin config f = (if LintStdin config then Some (Text f) else None)"

text \<open>
  \<open>lint\<close> returns a slice: \<open>None\<close> is the nil slice of the three paths that print to
  standard error and give up, \<open>Some ds\<close> the slice \<open>diagnostics\<close>.
\<close>

definition lint :: "'efm Env \<Rightarrow> langHandler \<Rightarrow> string \<Rightarrow> Diagnostic list option" where
  "lint env h uri =
     (case files h uri of
        None \<Rightarrow> None
      | Some f \<Rightarrow>
          (case lint_fname env uri of
             Inl err \<Rightarrow> None
           | Inr fname \<Rightarrow>
               (let config = configFor h uri
                in case NewErrorformat env (LintErrorFormats config) of
                     Inl err \<Rightarrow> None
                   | Inr efms \<Rightarrow>
                       (case CombinedOutput env (lint_argv env config) (lint_stdin config f) of
                          (b, None) \<Rightarrow> Some []
                        | (b, Some err) \<Rightarrow>
                            Some (lint_lines env config fname efms (Split_newline b) [])))))"

text \<open>
  One turn of the loop of \<open>linter\<close> for a URI received from the channel: the parameters
  of the \<open>textDocument/publishDiagnostics\<close> notification.
\<close>

record PublishDiagnosticsParams =
  URI :: string
  Diagnostics :: "Diagnostic list option"

definition linter_publish :: "'efm Env \<Rightarrow> langHandler \<Rightarrow> string \<Rightarrow> PublishDiagnosticsParams" where
  "linter_publish env h uri = \<lparr>URI = uri, Diagnostics = lint env h uri\<rparr>"

section \<open>The didOpen notification\<close>

text \<open>
  The fields \<open>URI\<close> and \<open>Text\<close> of \<open>TextDocumentItem\<close> are written \<open>TD_URI\<close> and
  \<open>TD_Text\<close>: the names are taken by the fields of the notification and of \<open>File\<close>.
\<close>

record TextDocumentItem =
  TD_URI :: string
  LanguageID :: string
  TD_Text :: string

record DidOpenTextDocumentParams =
  TextDocument :: TextDocumentItem

record Request =
  Method :: string
  Params :: "string option"

text \<open>
  \<open>unmarshal\<close> is \<open>json.Unmarshal\<close> into a \<open>DidOpenTextDocumentParams\<close>. The result of
  \<open>openFile\<close> is dropped, as in the source.
\<close>

definition handleTextDocumentDidOpen ::
  "(string \<Rightarrow> error + DidOpenTextDocumentParams) \<Rightarrow> langHandler \<Rightarrow> Request
     \<Rightarrow> (error + unit) \<times> langHandler" where
  "handleTextDocumentDidOpen unmarshal h req =
     (case Params req of
        None \<Rightarrow> (Inl CodeInvalidParams, h)
      | Some raw \<Rightarrow>
          (case unmarshal raw of
             Inl err \<Rightarrow> (Inl err, h)
           | Inr params \<Rightarrow>
               (let h1 = snd (openFile h (TD_URI (TextDocument params))
                                (LanguageID (TextDocument params)))
                in case updateFile h1 (TD_URI (TextDocument params))
                          (TD_Text (TextDocument params)) of
                     (Inl err, h2) \<Rightarrow> (Inl err, h2)
                   | (Inr u, h2) \<Rightarrow> (Inr (), h2))))"

section \<open>A concrete run\<close>

text \<open>
  A POSIX system on which the theorems below are evaluated. The compiled form of a pattern
  is the pattern string itself. Each parameter agrees with the library function it
  stands for on the inputs used here:
  \<^item> \<open>example_ParseRequestURI\<close> reads \<open>file://\<close> followed by a path without percent
    escapes, as \<open>url.ParseRequestURI\<close> does, and the \<open>String\<close> method of the URL
    \<open>{Scheme: "file", Path: p}\<close> prints exactly that for such a path \<open>p\<close>;
  \<^item> \<open>example_Match\<close> lists what the patterns \<open>%f:%l:%m\<close> and \<open>%f:%l:%c:%m\<close> extract from
    three lines (a pattern without \<open>%c\<close> leaves the column 0);
  \<^item> \<open>filepath.Abs\<close> joins a relative path to the working directory, here
    \<open>/home/user\<close>, and cleans the result; \<open>squeeze_slashes\<close> is what cleaning does to a
    path without dot elements and without a trailing slash;
  \<^item> the shell exits with status 0 and no output on the empty command, and the lint
    command exits with status 1 after printing \<open>out\<close>.
\<close>

definition example_ParseRequestURI :: "string \<Rightarrow> error + URL" where
  "example_ParseRequestURI s =
     (if take 7 s = ''file://'' then Inr \<lparr>Scheme = ''file'', Path = drop 7 s\<rparr>
      else Inl (LibError ''invalid URI for request''))"

definition example_Match :: "string \<Rightarrow> string \<Rightarrow> Match option" where
  "example_Match ef line =
     (if ef = ''%f:%l:%m'' \<and> line = ''/tmp/a.c:3:4:bad''
        then Some \<lparr>F = ''/tmp/a.c'', L = 3, C = 0, M = ''4:bad''\<rparr>
      else if ef = ''%f:%l:%c:%m'' \<and> line = ''/tmp/a.c:3:4:bad''
        then Some \<lparr>F = ''/tmp/a.c'', L = 3, C = 4, M = ''bad''\<rparr>
      else if ef = ''%f:%l:%m'' \<and> line = ''stdin:3:4:bad''
        then Some \<lparr>F = ''stdin'', L = 3, C = 0, M = ''4:bad''\<rparr>
      else if ef = ''%f:%l:%c:%m'' \<and> line = ''stdin:3:4:bad''
        then Some \<lparr>F = ''stdin'', L = 3, C = 4, M = ''bad''\<rparr>
      else if ef = ''%f:%l:%m'' \<and> line = ''/tmp/b.c:7:other''
        then Some \<lparr>F = ''/tmp/b.c'', L = 7, C = 0, M = ''other''\<rparr>
      else None)"

fun squeeze_slashes :: "string \<Rightarrow> string" where
  "squeeze_slashes (a # b # cs) =
     (if a = CHR ''/'' \<and> b = CHR ''/'' then squeeze_slashes (b # cs)
      else a # squeeze_slashes (b # cs))"
| "squeeze_slashes cs = cs"

definition example_env :: "string \<Rightarrow> string Env" where
  "example_env out =
     \<lparr>windows = False,
      ParseRequestURI = example_ParseRequestURI,
      NewErrorformat = (\<lambda>fs. Inr (case fs of None \<Rightarrow> [] | Some l \<Rightarrow> l)),
      Efm_Match = example_Match,
      CombinedOutput =
        (\<lambda>argv stdin. if argv = [''sh'', ''-c'', []] then ([], None)
                       else (out, Some (LibError ''exit status 1''))),
      Abs = (\<lambda>p. Inr (squeeze_slashes (if take 1 p = ''/'' then p else ''/home/user/'' @ p))),
      ToLower = (\<lambda>p. p)\<rparr>"

text \<open>A configuration for the language \<open>c\<close> with the command \<open>cc\<close>.\<close>

definition example_config :: "string list \<Rightarrow> bool \<Rightarrow> go_int \<Rightarrow> Config" where
  "example_config fs stdin k =
     \<lparr>LintErrorFormats = Some fs, LintStdin = stdin, LintOffset = k, LintCommand = ''cc''\<rparr>"

text \<open>
  The handler built by \<open>NewHandler\<close> for one language \<open>c\<close>, after a document of that
  language has been opened and given a text.
\<close>

definition example_handler :: "Config \<Rightarrow> string \<Rightarrow> langHandler" where
  "example_handler cfg uri =
     snd (updateFile (snd (openFile (NewHandler [(''c'', cfg)]) uri ''c'')) uri ''int x;'')"

section \<open>The loops of \<open>lint\<close> as list functions\<close>

text \<open>
  The loops append to \<open>diagnostics\<close> and never read it, so what a loop adds does not
  depend on what was there before.
\<close>

lemma lint_efms_acc:
  "lint_efms env config fname line efs acc = acc @ lint_efms env config fname line efs []"
proof (induction efs arbitrary: acc)
  case Nil
  show ?case by simp
next
  case (Cons ef efs)
  show ?case
    using Cons.IH [of "acc @ [d]" for d] Cons.IH [of "[d]" for d] Cons.IH [of acc]
    by (simp split: option.splits)
qed

lemma lint_efms_Cons:
  "lint_efms env config fname line (ef # efs) [] =
     (case Option.bind (Efm_Match env ef line) (lint_match env config fname) of
        None \<Rightarrow> [] | Some d \<Rightarrow> [d]) @ lint_efms env config fname line efs []"
  using lint_efms_acc [of env config fname line efs "[d]" for d]
  by (simp split: option.splits)



lemma lint_lines_concat:
  "lint_lines env config fname efms lines acc =
     acc @ concat (map (\<lambda>line. lint_efms env config fname line efms []) lines)"
proof (induction lines arbitrary: acc)
  case Nil
  show ?case by simp
next
  case (Cons line lines)
  have "lint_lines env config fname efms (line # lines) acc =
          lint_efms env config fname line efms acc
          @ concat (map (\<lambda>line. lint_efms env config fname line efms []) lines)"
    by (simp add: Cons.IH)
  also have "lint_efms env config fname line efms acc =
          acc @ lint_efms env config fname line efms []"
    by (rule lint_efms_acc)
  finally show ?case by simp
qed

lemma set_lint_efms:
  "d \<in> set (lint_efms env config fname line efs []) \<longleftrightarrow>
     (\<exists>ef \<in> set efs. \<exists>m. Efm_Match env ef line = Some m \<and> lint_match env config fname m = Some d)"
  by (induction efs) (auto simp: lint_efms_Cons bind_eq_Some_conv simp del: lint_efms.simps(2) split: option.splits)

lemma set_lint_lines:
  "d \<in> set (lint_lines env config fname efms lines []) \<longleftrightarrow>
     (\<exists>line \<in> set lines. \<exists>ef \<in> set efms. \<exists>m.
        Efm_Match env ef line = Some m \<and> lint_match env config fname m = Some d)"
  by (auto simp: lint_lines_concat set_lint_efms)

lemma lint_Some_cases:
  assumes "lint env h uri = Some ds"
  obtains f fname efms b err where
    "files h uri = Some f" "lint_fname env uri = Inr fname"
    "NewErrorformat env (LintErrorFormats (configFor h uri)) = Inr efms"
    "CombinedOutput env (lint_argv env (configFor h uri)) (lint_stdin (configFor h uri) f) = (b, err)"
    "ds = (case err of None \<Rightarrow> [] |
             Some e \<Rightarrow> lint_lines env (configFor h uri) fname efms (Split_newline b) [])"
  using assms
  by (auto simp: lint_def Let_def split: option.splits sum.splits prod.splits)


lemma lint_diagnostic_origin:
  assumes "lint env h uri = Some ds" and "d \<in> set ds"
  obtains f fname efms b err line ef m where
    "files h uri = Some f" "lint_fname env uri = Inr fname"
    "NewErrorformat env (LintErrorFormats (configFor h uri)) = Inr efms"
    "CombinedOutput env (lint_argv env (configFor h uri)) (lint_stdin (configFor h uri) f)
       = (b, Some err)"
    "line \<in> set (Split_newline b)" "ef \<in> set efms" "Efm_Match env ef line = Some m"
    "lint_match env (configFor h uri) fname m = Some d"
proof -
  from assms(1) obtain f fname efms b err where
    a: "files h uri = Some f" "lint_fname env uri = Inr fname"
       "NewErrorformat env (LintErrorFormats (configFor h uri)) = Inr efms"
       "CombinedOutput env (lint_argv env (configFor h uri)) (lint_stdin (configFor h uri) f)
          = (b, err)"
    and ds: "ds = (case err of None \<Rightarrow> [] |
               Some e \<Rightarrow> lint_lines env (configFor h uri) fname efms (Split_newline b) [])"
    by (rule lint_Some_cases)
  from ds assms(2) obtain e where e: "err = Some e"
    and d: "d \<in> set (lint_lines env (configFor h uri) fname efms (Split_newline b) [])"
    by (cases err) auto
  from d obtain line ef m where
    "line \<in> set (Split_newline b)" "ef \<in> set efms" "Efm_Match env ef line = Some m"
    "lint_match env (configFor h uri) fname m = Some d"
    unfolding set_lint_lines by blast
  with a e show thesis by (auto intro: that)
qed

text \<open>
  Subtracting 1 and an offset at least as large as a positive line number does not
  overflow.
\<close>

lemma sint_line_exact:
  fixes l k :: go_int
  assumes "1 \<le> sint l" and "sint l \<le> sint k"
  shows "sint (l - 1 - k) = sint l - 1 - sint k"
proof -
  have bl: "sint l < 2 ^ 63" and bk: "sint k < 2 ^ 63"
    using sint_lt [of l] sint_lt [of k] by simp_all
  have one: "sint (l - 1) = sint l - 1"
    using assms(1) bl by (simp add: sint_word_ariths signed_take_bit_int_eq_self)
  have "sint (l - 1 - k) = signed_take_bit 63 (sint (l - 1) - sint k)"
    by (simp add: sint_word_ariths)
  also have "\<dots> = sint l - 1 - sint k"
    using assms bl bk by (simp add: one signed_take_bit_int_eq_self)
  finally show ?thesis .
qed

text \<open>
  The loop body in closed form: when a match survives, and what is appended then; the
  name under which \<open>lint\<close> compares, in terms of the parsed URI; and the value of
  \<open>lint\<close> once the command has run.
\<close>

lemma lint_match_Some_iff:
  "lint_match env config fname m = Some d \<longleftrightarrow>
     (\<exists>path.
        Abs env (if LintStdin config \<and> (F m = ''stdin'' \<or> F m = ''-'') then fname
                 else ToSlash (windows env) (F m)) = Inr path
      \<and> (if windows env then ToLower env (ToSlash (windows env) path)
          else ToSlash (windows env) path) = fname)
   \<and> d = \<lparr>Range =
            \<lparr>Start = \<lparr>Line = L m - 1 - LintOffset config,
                       Character = (if C m = 0 then 1 else C m) - 1\<rparr>,
             End = \<lparr>Line = L m - 1 - LintOffset config,
                     Character = (if C m = 0 then 1 else C m) - 1\<rparr>\<rparr>,
          Message = M m, Severity = 1\<rparr>"
proof (cases "windows env")
  case True
  then show ?thesis
    by (cases "LintStdin config \<and> (F m = ''stdin'' \<or> F m = ''-'')")
       (auto simp: lint_match_def Let_def split: sum.splits)
next
  case False
  then show ?thesis
    by (cases "LintStdin config \<and> (F m = ''stdin'' \<or> F m = ''-'')")
       (auto simp: lint_match_def Let_def split: sum.splits)
qed

lemma lint_match_None_other_file:
  assumes "Abs env (if LintStdin config \<and> (F m = ''stdin'' \<or> F m = ''-'') then fname
                    else ToSlash (windows env) (F m)) = Inr path"
    and "(if windows env then ToLower env (ToSlash (windows env) path)
          else ToSlash (windows env) path) \<noteq> fname"
  shows "lint_match env config fname m = None"
proof (cases "lint_match env config fname m")
  case None
  then show ?thesis .
next
  case (Some d)
  then show ?thesis
    using assms unfolding lint_match_Some_iff by auto
qed

lemma lint_match_None_unresolved:
  assumes "Abs env (if LintStdin config \<and> (F m = ''stdin'' \<or> F m = ''-'') then fname
                    else ToSlash (windows env) (F m)) = Inl e"
  shows "lint_match env config fname m = None"
proof (cases "lint_match env config fname m")
  case None
  then show ?thesis .
next
  case (Some d)
  then show ?thesis
    using assms unfolding lint_match_Some_iff by auto
qed

lemma lint_fname_InrD:
  assumes "lint_fname env uri = Inr fname"
  shows "\<exists>u. ParseRequestURI env uri = Inr u \<and> Scheme u = ''file''
         \<and> fname =
             (if windows env
              then ToLower env (ToSlash (windows env)
                     (if isWindowsDriveURI (Path u) then drop 1 (Path u) else Path u))
              else ToSlash (windows env)
                     (if isWindowsDriveURI (Path u) then drop 1 (Path u) else Path u))"
  using assms
  by (auto simp: lint_fname_def fromURI_def Let_def split: sum.splits if_splits)

lemma lint_run:
  assumes "files h uri = Some f" and "lint_fname env uri = Inr fname"
    and "NewErrorformat env (LintErrorFormats (configFor h uri)) = Inr efms"
    and "CombinedOutput env (lint_argv env (configFor h uri)) (lint_stdin (configFor h uri) f)
           = (b, err)"
  shows "lint env h uri =
           Some (case err of None \<Rightarrow> []
                 | Some e \<Rightarrow> lint_lines env (configFor h uri) fname efms (Split_newline b) [])"
  using assms by (simp add: lint_def Let_def split: option.splits)

text \<open>
  The subtraction wraps around: its signed value is the integer result folded into 64
  bits, and is that integer when it fits.
\<close>

lemma sint_line_wraps:
  fixes l k :: go_int
  shows "sint (l - 1 - k) = signed_take_bit 63 (sint l - 1 - sint k)"
proof -
  have "sint (l - 1 - k) = signed_take_bit 63 (sint (l - 1) - sint k)"
    by (simp add: sint_word_ariths)
  also have "sint (l - 1) = signed_take_bit 63 (sint l - 1)"
    by (simp add: sint_word_ariths)
  also have "signed_take_bit 63 (signed_take_bit 63 (sint l - 1) - sint k)
               = signed_take_bit 63 (sint l - 1 - sint k)"
  proof -
    have "signed_take_bit 63 (sint k) = sint k"
      using sint_ge [of k] sint_lt [of k] by (simp add: signed_take_bit_int_eq_self)
    then show ?thesis
      using signed_take_bit_diff [of 63 "sint l - 1" "sint k"] by simp
  qed
  finally show ?thesis .
qed

lemma sint_line_in_range:
  fixes l k :: go_int
  assumes "- (2 ^ 63) \<le> sint l - 1 - sint k" and "sint l - 1 - sint k < 2 ^ 63"
  shows "sint (l - 1 - k) = sint l - 1 - sint k"
  using assms by (simp add: sint_line_wraps signed_take_bit_int_eq_self)

section \<open>Construction of the handler: the default patterns\<close>

lemma NewHandler_range_id: "NewHandler_range xs cfgs = cfgs"
  by (induction xs) (auto simp: Let_def)

lemma configs_NewHandler: "configs (NewHandler cs) = cs"
  by (simp add: NewHandler_def NewHandler_range_id)

text \<open>
  C2. The claim: for a language whose configuration leaves the pattern list unset, the
  stored configuration holds the two built-in patterns. The code assigns them to the loop
  variable, a copy, so the stored configuration keeps the nil list: for the
  configuration \<open>c\<close> with command \<open>cc\<close> and no pattern list, the handler built by
  \<open>NewHandler\<close> stores the configuration unchanged, and \<open>lint\<close> for a document of that
  language reads the nil list, not the defaults.
\<close>

theorem NewHandler_leaves_formats_unset:
  "configs (NewHandler [(''c'', \<lparr>LintErrorFormats = None, LintStdin = False,
                                  LintOffset = 0, LintCommand = ''cc''\<rparr>)])
     = [(''c'', \<lparr>LintErrorFormats = None, LintStdin = False,
                  LintOffset = 0, LintCommand = ''cc''\<rparr>)]
   \<and> LintErrorFormats
        (configFor
           (example_handler \<lparr>LintErrorFormats = None, LintStdin = False,
                              LintOffset = 0, LintCommand = ''cc''\<rparr> ''file:///tmp/a.c'')
           ''file:///tmp/a.c'') = None
   \<and> None \<noteq> Some default_formats"
  by (simp add: configs_NewHandler example_handler_def openFile_def updateFile_def
      configFor_def NewHandler_def NewHandler_range_id)

section \<open>Opening a document\<close>

text \<open>
  C9. A didOpen notification whose parameters are present and parse stores the document
  and then performs exactly the update of \<open>updateFile\<close> with the document's text: the
  handler returns no error, its state is that of \<open>updateFile\<close> after \<open>openFile\<close>, the
  store holds the document with its language and text, and the URI has been sent on the
  request channel, by the same (blocking) send as an update.
\<close>

theorem didOpen_is_open_then_update:
  assumes "Params req = Some raw" and "unmarshal raw = Inr params"
  shows "handleTextDocumentDidOpen unmarshal h req =
           (Inr (), snd (updateFile (snd (openFile h (TD_URI (TextDocument params))
                                            (LanguageID (TextDocument params))))
                           (TD_URI (TextDocument params)) (TD_Text (TextDocument params))))
         \<and> files (snd (handleTextDocumentDidOpen unmarshal h req)) (TD_URI (TextDocument params))
             = Some \<lparr>LanguageId = LanguageID (TextDocument params),
                      Text = TD_Text (TextDocument params)\<rparr>
         \<and> request (snd (handleTextDocumentDidOpen unmarshal h req))
             = request h @ [TD_URI (TextDocument params)]"
  using assms
  by (simp add: handleTextDocumentDidOpen_def openFile_def updateFile_def Let_def)

theorem didOpen_is_open_then_update_witness:
  "handleTextDocumentDidOpen
     (\<lambda>raw. Inr \<lparr>TextDocument = \<lparr>TD_URI = ''file:///tmp/a.c'', LanguageID = ''c'', TD_Text = raw\<rparr>\<rparr>)
     (NewHandler []) \<lparr>Method = ''textDocument/didOpen'', Params = Some ''int x;''\<rparr>
   = (Inr (),
      \<lparr>configs = [],
       files = [''file:///tmp/a.c'' \<mapsto> \<lparr>LanguageId = ''c'', Text = ''int x;''\<rparr>],
       request = [''file:///tmp/a.c'']\<rparr>)"
  using didOpen_is_open_then_update
    [of "\<lparr>Method = ''textDocument/didOpen'', Params = Some ''int x;''\<rparr>" "''int x;''"
        "\<lambda>raw. Inr \<lparr>TextDocument = \<lparr>TD_URI = ''file:///tmp/a.c'', LanguageID = ''c'', TD_Text = raw\<rparr>\<rparr>"
        "\<lparr>TextDocument = \<lparr>TD_URI = ''file:///tmp/a.c'', LanguageID = ''c'', TD_Text = ''int x;''\<rparr>\<rparr>"
        "NewHandler []"]
  by (simp add: openFile_def updateFile_def NewHandler_def)

section \<open>Evaluation of the concrete run\<close>

lemmas example_simps =
  lint_def lint_fname_def fromURI_def example_env_def example_handler_def example_config_def
  example_ParseRequestURI_def example_Match_def isWindowsDriveURI_def IsLetter_def
  ToSlash_def configFor_def NewHandler_def NewHandler_range_id openFile_def updateFile_def
  lint_argv_def lint_stdin_def lint_match_def linter_publish_def Let_def

section \<open>The round trip between paths and URIs\<close>

lemma length_ToSlash: "length (ToSlash win p) = length p"
  by (simp add: ToSlash_def)

lemma ToSlash_Cons_slash: "ToSlash win (CHR ''/'' # p) = CHR ''/'' # ToSlash win p"
  by (simp add: ToSlash_def)

lemma nth_ToSlash:
  "i < length p \<Longrightarrow>
     ToSlash win p ! i = (if win \<and> p ! i = CHR 0x5C then CHR ''/'' else p ! i)"
  by (simp add: ToSlash_def)

lemma IsLetter_separators: "\<not> IsLetter (CHR 0x5C)" "\<not> IsLetter (CHR ''/'')"
  by (simp_all add: IsLetter_def)

lemma ToSlash_no_backslash: "(win \<longrightarrow> CHR 0x5C \<notin> set p) \<Longrightarrow> ToSlash win p = p"
  by (induction p) (auto simp: ToSlash_def)

lemma isWindowsDriveURI_ToSlash:
  assumes "p \<noteq> []" and "hd p = CHR ''/''"
  shows "isWindowsDriveURI (ToSlash win p) = isWindowsDriveURI p"
proof (cases "length p < 4")
  case True
  then show ?thesis by (simp add: isWindowsDriveURI_def length_ToSlash)
next
  case False
  from assms have p0: "p ! 0 = CHR ''/''" by (cases p) simp_all
  from False have "0 < length p" "1 < length p" "2 < length p" by linarith+
  then show ?thesis
    using False p0 IsLetter_separators
    by (auto simp: isWindowsDriveURI_def length_ToSlash nth_ToSlash)
qed

lemma isWindowsDrivePath_not_slash:
  assumes "p \<noteq> []" and "hd p = CHR ''/''"
  shows "\<not> isWindowsDrivePath p"
  using assms IsLetter_separators by (cases p) (auto simp: isWindowsDrivePath_def)

lemma isWindowsDriveURI_drive_path:
  assumes "isWindowsDrivePath p"
  shows "isWindowsDriveURI (CHR ''/'' # ToSlash win p)"
proof -
  from assms have len: "\<not> length p < 4" and l: "IsLetter (p ! 0)" and c: "p ! 1 = CHR '':''"
    by (auto simp: isWindowsDrivePath_def split: if_splits)
  from len have "0 < length p" "1 < length p" by linarith+
  then have "ToSlash win p ! 0 = p ! 0" "ToSlash win p ! 1 = p ! 1"
    using l c IsLetter_separators by (auto simp: nth_ToSlash)
  then show ?thesis
    using len l c by (simp add: isWindowsDriveURI_def length_ToSlash)
qed

text \<open>
  C4. The claim: \<open>fromURI(toURI(p))\<close> returns \<open>p\<close> for every absolute POSIX-style path
  and for every absolute Windows-drive path, and in the second case the path of the
  intermediate URI begins with a slash. As stated it fails (see the theorem after the
  next two). What holds: let \<open>s\<close> be a string that \<open>url.ParseRequestURI\<close> reads as the
  URL \<open>toURI(p)\<close>, as the string form of that URL is. If \<open>p\<close> begins with a slash and is
  not of the form slash, letter, colon of length at least 4, or if \<open>p\<close> has length at
  least 4 and begins with a letter and a colon, then \<open>fromURI(s)\<close> succeeds and returns
  \<open>p\<close> with the platform's separators replaced by slashes, which is \<open>p\<close> itself when the
  platform is not Windows or \<open>p\<close> has no backslash; for a drive path the path of the
  intermediate URI begins with a slash.
\<close>

theorem fromURI_toURI_round_trip:
  assumes parse: "ParseRequestURI env s = Inr (toURI (windows env) p)"
    and shape: "(p \<noteq> [] \<and> hd p = CHR ''/'' \<and> \<not> isWindowsDriveURI p) \<or> isWindowsDrivePath p"
  shows "fromURI env s = Inr (ToSlash (windows env) p)
       \<and> ((windows env \<longrightarrow> CHR 0x5C \<notin> set p) \<longrightarrow> fromURI env s = Inr p)
       \<and> (isWindowsDrivePath p \<longrightarrow> take 1 (Path (toURI (windows env) p)) = ''/'')"
proof -
  have main: "fromURI env s = Inr (ToSlash (windows env) p)"
  proof (cases "isWindowsDrivePath p")
    case True
    then show ?thesis
      using parse isWindowsDriveURI_drive_path [OF True, of "windows env"]
      by (simp add: fromURI_def toURI_def ToSlash_Cons_slash)
  next
    case False
    with shape have p: "p \<noteq> []" "hd p = CHR ''/''" "\<not> isWindowsDriveURI p" by auto
    then show ?thesis
      using parse False isWindowsDriveURI_ToSlash [OF p(1,2), of "windows env"]
      by (simp add: fromURI_def toURI_def)
  qed
  moreover have "(windows env \<longrightarrow> CHR 0x5C \<notin> set p) \<longrightarrow> fromURI env s = Inr p"
    using main ToSlash_no_backslash [of "windows env" p] by auto
  moreover have "isWindowsDrivePath p \<longrightarrow> take 1 (Path (toURI (windows env) p)) = ''/''"
    by (simp add: toURI_def ToSlash_Cons_slash)
  ultimately show ?thesis by blast
qed

theorem fromURI_toURI_round_trip_witness:
  "example_ParseRequestURI ''file:///C:/Users/a.c'' = Inr (toURI True ''C:/Users/a.c'')
   \<and> isWindowsDrivePath ''C:/Users/a.c''
   \<and> fromURI ((example_env [])\<lparr>windows := True\<rparr>) ''file:///C:/Users/a.c'' = Inr ''C:/Users/a.c''
   \<and> take 1 (Path (toURI True ''C:/Users/a.c'')) = ''/''"
proof -
  have parse: "ParseRequestURI ((example_env [])\<lparr>windows := True\<rparr>) ''file:///C:/Users/a.c''
                 = Inr (toURI (windows ((example_env [])\<lparr>windows := True\<rparr>)) ''C:/Users/a.c'')"
    by (simp add: example_env_def example_ParseRequestURI_def toURI_def isWindowsDrivePath_def
        IsLetter_def ToSlash_def)
  have drive: "isWindowsDrivePath ''C:/Users/a.c''"
    by (simp add: isWindowsDrivePath_def IsLetter_def)
  have shape: "(''C:/Users/a.c'' \<noteq> [] \<and> hd ''C:/Users/a.c'' = CHR ''/''
                  \<and> \<not> isWindowsDriveURI ''C:/Users/a.c'') \<or> isWindowsDrivePath ''C:/Users/a.c''"
    using drive by simp
  show ?thesis
    using fromURI_toURI_round_trip [OF parse shape] parse drive
    by (simp add: example_env_def ToSlash_def)
qed

text \<open>
  The drive path \<open>C:/\<close> has length 3, so \<open>isWindowsDrivePath\<close> rejects it and the path of
  its URI is \<open>C:/\<close>, which does not begin with a slash, on either platform. The absolute
  POSIX path \<open>/c:/x\<close> has the URL with that path, whose string form is
  \<open>file:///c:/x\<close>; \<open>fromURI\<close> takes it for a drive URI and returns \<open>c:/x\<close>.
\<close>

theorem fromURI_toURI_round_trip_counterexample:
  "Path (toURI True ''C:/'') = ''C:/''
   \<and> Path (toURI False ''C:/'') = ''C:/''
   \<and> toURI False ''/c:/x'' = \<lparr>Scheme = ''file'', Path = ''/c:/x''\<rparr>
   \<and> fromURI (example_env []) ''file:///c:/x'' = Inr ''c:/x''"
  by (simp add: toURI_def isWindowsDrivePath_def ToSlash_def fromURI_def example_env_def
      example_ParseRequestURI_def isWindowsDriveURI_def IsLetter_def)

section \<open>Patterns and lines\<close>




section \<open>Only the linted document\<close>

text \<open>
  C3. The claim: a match survives only if its reported file path, made absolute,
  slash-normalized and case-folded, equals the similarly normalized path of the linted
  document. Under standard-input delivery this fails for the placeholders (see the
  theorem after the next two): the file that is resolved and compared is not the
  reported one. What holds: every diagnostic of a lint run comes from a match, by a
  compiled pattern of the configuration, of a line of the command's output, such that
  the match's file, made absolute, slash-normalized and lower-cased on Windows, equals
  the document's path. The match's file is the document's path when standard-input
  delivery is configured and the reported file is \<open>stdin\<close> or \<open>-\<close>, and the
  slash-normalized reported file otherwise. The document's path is the path of the
  linted URI as parsed, a file URI, without the leading slash of a drive form,
  slash-normalized and lower-cased on Windows (it is not made absolute). A match whose
  file resolves to another path, or does not resolve, is dropped. The notification
  carries the linted URI and the list as returned.
\<close>

theorem lint_diagnostics_name_linted_document:
  assumes "lint env h uri = Some ds" and "d \<in> set ds"
  shows "\<exists>u p fname f efms b err line ef m path.
           ParseRequestURI env uri = Inr u \<and> Scheme u = ''file''
         \<and> p = (if isWindowsDriveURI (Path u) then drop 1 (Path u) else Path u)
         \<and> fname = (if windows env then ToLower env (ToSlash (windows env) p)
                     else ToSlash (windows env) p)
         \<and> files h uri = Some f
         \<and> NewErrorformat env (LintErrorFormats (configFor h uri)) = Inr efms
         \<and> CombinedOutput env (lint_argv env (configFor h uri))
               (lint_stdin (configFor h uri) f) = (b, Some err)
         \<and> line \<in> set (Split_newline b) \<and> ef \<in> set efms
         \<and> Efm_Match env ef line = Some m
         \<and> lint_match env (configFor h uri) fname m = Some d
         \<and> Abs env (if LintStdin (configFor h uri) \<and> (F m = ''stdin'' \<or> F m = ''-'') then fname
                     else ToSlash (windows env) (F m)) = Inr path
         \<and> (if windows env then ToLower env (ToSlash (windows env) path)
             else ToSlash (windows env) path) = fname
         \<and> (\<forall>m' path'.
               Abs env (if LintStdin (configFor h uri) \<and> (F m' = ''stdin'' \<or> F m' = ''-'')
                        then fname else ToSlash (windows env) (F m')) = Inr path'
             \<and> (if windows env then ToLower env (ToSlash (windows env) path')
                 else ToSlash (windows env) path') \<noteq> fname
             \<longrightarrow> lint_match env (configFor h uri) fname m' = None)
         \<and> (\<forall>m' e.
               Abs env (if LintStdin (configFor h uri) \<and> (F m' = ''stdin'' \<or> F m' = ''-'')
                        then fname else ToSlash (windows env) (F m')) = Inl e
             \<longrightarrow> lint_match env (configFor h uri) fname m' = None)
         \<and> URI (linter_publish env h uri) = uri
         \<and> Diagnostics (linter_publish env h uri) = Some ds"
proof -
  from assms obtain f fname efms b err line ef m where
    f: "files h uri = Some f" and n: "lint_fname env uri = Inr fname"
    and e: "NewErrorformat env (LintErrorFormats (configFor h uri)) = Inr efms"
    and c: "CombinedOutput env (lint_argv env (configFor h uri))
              (lint_stdin (configFor h uri) f) = (b, Some err)"
    and l: "line \<in> set (Split_newline b)" and ef: "ef \<in> set efms"
    and m: "Efm_Match env ef line = Some m"
    and d: "lint_match env (configFor h uri) fname m = Some d"
    by (rule lint_diagnostic_origin)
  from lint_fname_InrD [OF n] obtain u where
    u: "ParseRequestURI env uri = Inr u" "Scheme u = ''file''"
    and fn: "fname =
             (if windows env
              then ToLower env (ToSlash (windows env)
                     (if isWindowsDriveURI (Path u) then drop 1 (Path u) else Path u))
              else ToSlash (windows env)
                     (if isWindowsDriveURI (Path u) then drop 1 (Path u) else Path u))"
    by blast
  from d obtain path where
    p: "Abs env (if LintStdin (configFor h uri) \<and> (F m = ''stdin'' \<or> F m = ''-'') then fname
                 else ToSlash (windows env) (F m)) = Inr path"
       "(if windows env then ToLower env (ToSlash (windows env) path)
         else ToSlash (windows env) path) = fname"
    unfolding lint_match_Some_iff by blast
  have other: "\<forall>m' path'.
               Abs env (if LintStdin (configFor h uri) \<and> (F m' = ''stdin'' \<or> F m' = ''-'')
                        then fname else ToSlash (windows env) (F m')) = Inr path'
             \<and> (if windows env then ToLower env (ToSlash (windows env) path')
                 else ToSlash (windows env) path') \<noteq> fname
             \<longrightarrow> lint_match env (configFor h uri) fname m' = None"
    using lint_match_None_other_file [of env "configFor h uri" _ fname] by blast
  have unres: "\<forall>m' e.
               Abs env (if LintStdin (configFor h uri) \<and> (F m' = ''stdin'' \<or> F m' = ''-'')
                        then fname else ToSlash (windows env) (F m')) = Inl e
             \<longrightarrow> lint_match env (configFor h uri) fname m' = None"
    using lint_match_None_unresolved [of env "configFor h uri" _ fname] by blast
  have pub: "URI (linter_publish env h uri) = uri"
    "Diagnostics (linter_publish env h uri) = Some ds"
    using assms(1) by (simp_all add: linter_publish_def)
  show ?thesis
    apply (rule exI [of _ u])
    apply (rule exI [of _ "if isWindowsDriveURI (Path u) then drop 1 (Path u) else Path u"])
    apply (rule exI [of _ fname])
    apply (rule exI [of _ f])
    apply (rule exI [of _ efms])
    apply (rule exI [of _ b])
    apply (rule exI [of _ err])
    apply (rule exI [of _ line])
    apply (rule exI [of _ ef])
    apply (rule exI [of _ m])
    apply (rule exI [of _ path])
    using u fn f e c l ef m d p other unres pub
    apply (intro conjI)
    apply (assumption | rule refl)+
    done
qed

theorem lint_diagnostics_name_linted_document_witness:
  "lint (example_env ''/tmp/a.c:3:4:bad\<newline>/tmp/b.c:7:other'')
     (example_handler (example_config [''%f:%l:%m''] False 0) ''file:///tmp/a.c'')
     ''file:///tmp/a.c''
   = Some [\<lparr>Range = \<lparr>Start = \<lparr>Line = 2, Character = 0\<rparr>,
                       End = \<lparr>Line = 2, Character = 0\<rparr>\<rparr>,
            Message = ''4:bad'', Severity = 1\<rparr>]
   \<and> example_ParseRequestURI ''file:///tmp/a.c'' = Inr \<lparr>Scheme = ''file'', Path = ''/tmp/a.c''\<rparr>
   \<and> lint_match (example_env ''/tmp/a.c:3:4:bad\<newline>/tmp/b.c:7:other'')
        (example_config [''%f:%l:%m''] False 0) ''/tmp/a.c''
        \<lparr>F = ''/tmp/b.c'', L = 7, C = 0, M = ''other''\<rparr> = None
   \<and> URI (linter_publish (example_env ''/tmp/a.c:3:4:bad\<newline>/tmp/b.c:7:other'')
        (example_handler (example_config [''%f:%l:%m''] False 0) ''file:///tmp/a.c'')
        ''file:///tmp/a.c'') = ''file:///tmp/a.c''"
proof -
  let ?env = "example_env ''/tmp/a.c:3:4:bad\<newline>/tmp/b.c:7:other''"
  let ?cfg = "example_config [''%f:%l:%m''] False 0"
  let ?h = "example_handler ?cfg ''file:///tmp/a.c''"
  let ?d = "\<lparr>Range = \<lparr>Start = \<lparr>Line = 2, Character = 0\<rparr>,
                       End = \<lparr>Line = 2, Character = 0\<rparr>\<rparr>,
            Message = ''4:bad'', Severity = 1 :: go_int\<rparr>"
  let ?mb = "\<lparr>F = ''/tmp/b.c'', L = 7, C = 0, M = ''other''\<rparr>"
  have l: "lint ?env ?h ''file:///tmp/a.c'' = Some [?d]"
    by (simp add: example_simps)
  have d: "?d \<in> set [?d]" by simp
  have cfg: "configFor ?h ''file:///tmp/a.c'' = ?cfg"
    by (simp add: example_handler_def configFor_def NewHandler_def NewHandler_range_id
        openFile_def updateFile_def)
  have parse: "ParseRequestURI ?env ''file:///tmp/a.c'' = Inr \<lparr>Scheme = ''file'', Path = ''/tmp/a.c''\<rparr>"
    by (simp add: example_env_def example_ParseRequestURI_def)
  have win: "windows ?env = False" by (simp add: example_env_def)
  have nodrive: "\<not> isWindowsDriveURI ''/tmp/a.c''"
    by (simp add: isWindowsDriveURI_def IsLetter_def)
  from lint_diagnostics_name_linted_document [OF l d] obtain u p fname where
    u: "ParseRequestURI ?env ''file:///tmp/a.c'' = Inr u"
    and p: "p = (if isWindowsDriveURI (Path u) then drop 1 (Path u) else Path u)"
    and fn: "fname = (if windows ?env then ToLower ?env (ToSlash (windows ?env) p)
                      else ToSlash (windows ?env) p)"
    and other: "\<forall>m' path'.
               Abs ?env (if LintStdin (configFor ?h ''file:///tmp/a.c'') \<and> (F m' = ''stdin'' \<or> F m' = ''-'')
                        then fname else ToSlash (windows ?env) (F m')) = Inr path'
             \<and> (if windows ?env then ToLower ?env (ToSlash (windows ?env) path')
                 else ToSlash (windows ?env) path') \<noteq> fname
             \<longrightarrow> lint_match ?env (configFor ?h ''file:///tmp/a.c'') fname m' = None"
    and pub: "URI (linter_publish ?env ?h ''file:///tmp/a.c'') = ''file:///tmp/a.c''"
    by blast
  from u parse have "u = \<lparr>Scheme = ''file'', Path = ''/tmp/a.c''\<rparr>" by simp
  with p fn win nodrive have fname: "fname = ''/tmp/a.c''"
    by (simp add: ToSlash_def)
  have abs: "Abs ?env (if LintStdin ?cfg \<and> (F ?mb = ''stdin'' \<or> F ?mb = ''-'')
                        then ''/tmp/a.c'' else ToSlash (windows ?env) (F ?mb)) = Inr ''/tmp/b.c''"
    by (simp add: example_env_def example_config_def ToSlash_def)
  have ne: "(if windows ?env then ToLower ?env (ToSlash (windows ?env) ''/tmp/b.c'')
             else ToSlash (windows ?env) ''/tmp/b.c'') \<noteq> ''/tmp/a.c''"
    by (simp add: win ToSlash_def)
  have dropped: "lint_match ?env ?cfg ''/tmp/a.c'' ?mb = None"
    using other [unfolded cfg fname, rule_format, of ?mb "''/tmp/b.c''"] abs ne by blast
  from l parse dropped pub show ?thesis
    by (simp only: example_env_def Env.simps)
qed

text \<open>
  Under standard-input delivery the line \<open>stdin:3:4:bad\<close> of a run for
  \<open>file:///tmp/a.c\<close> gives a diagnostic, although its reported file \<open>stdin\<close> resolves to
  \<open>/home/user/stdin\<close> and the document's path is \<open>/tmp/a.c\<close>.
\<close>

theorem lint_placeholder_survives_as_document:
  "lint (example_env ''stdin:3:4:bad'')
     (example_handler (example_config [''%f:%l:%c:%m''] True 0) ''file:///tmp/a.c'')
     ''file:///tmp/a.c''
   = Some [\<lparr>Range = \<lparr>Start = \<lparr>Line = 2, Character = 3\<rparr>,
                       End = \<lparr>Line = 2, Character = 3\<rparr>\<rparr>,
            Message = ''bad'', Severity = 1\<rparr>]
   \<and> Split_newline ''stdin:3:4:bad'' = [''stdin:3:4:bad'']
   \<and> example_Match ''%f:%l:%c:%m'' ''stdin:3:4:bad''
       = Some \<lparr>F = ''stdin'', L = 3, C = 4, M = ''bad''\<rparr>
   \<and> Abs (example_env ''stdin:3:4:bad'') (ToSlash False ''stdin'') = Inr ''/home/user/stdin''
   \<and> lint_fname (example_env ''stdin:3:4:bad'') ''file:///tmp/a.c'' = Inr ''/tmp/a.c''"
  by (simp add: example_simps)

section \<open>Shape of a diagnostic\<close>



section \<open>The standard-input placeholder\<close>

text \<open>
  C6. The claim: under standard-input delivery a match whose file is \<open>stdin\<close> or \<open>-\<close>
  gets the document's normalized path, so that it survives the same-document filter;
  otherwise the reported file is slash-normalized. The substitution is as claimed, but
  the substituted path still goes through \<open>filepath.Abs\<close> before the comparison, so
  survival is not guaranteed (see the theorem after this one). What holds: a match
  survives exactly when absolute-path resolution succeeds on its file (the document's
  normalized path for a placeholder under standard-input delivery, the slash-normalized
  reported file otherwise) and the result, slash-normalized and lower-cased on Windows,
  equals the document's normalized path.
\<close>

theorem lint_match_survives_iff:
  "(\<exists>d. lint_match env config fname m = Some d) \<longleftrightarrow>
     (\<exists>path.
        Abs env (if LintStdin config \<and> (F m = ''stdin'' \<or> F m = ''-'') then fname
                 else ToSlash (windows env) (F m)) = Inr path
      \<and> (if windows env then ToLower env (ToSlash (windows env) path)
          else ToSlash (windows env) path) = fname)"
proof (cases "windows env")
  case True
  then show ?thesis
    by (cases "LintStdin config \<and> (F m = ''stdin'' \<or> F m = ''-'')")
       (auto simp: lint_match_def Let_def split: sum.splits)
next
  case False
  then show ?thesis
    by (cases "LintStdin config \<and> (F m = ''stdin'' \<or> F m = ''-'')")
       (auto simp: lint_match_def Let_def split: sum.splits)
qed

text \<open>
  The URI \<open>file:///tmp//a.c\<close> has the path \<open>/tmp//a.c\<close>, which \<open>filepath.Abs\<close> cleans to
  \<open>/tmp/a.c\<close>: under standard-input delivery the match of \<open>stdin:3:4:bad\<close> gets the
  path \<open>/tmp//a.c\<close>, fails the comparison and is dropped.
\<close>

theorem lint_stdin_placeholder_dropped:
  "lint (example_env ''stdin:3:4:bad'')
     (example_handler (example_config [''%f:%l:%c:%m''] True 0) ''file:///tmp//a.c'')
     ''file:///tmp//a.c''
   = Some []
   \<and> lint_fname (example_env ''stdin:3:4:bad'') ''file:///tmp//a.c'' = Inr ''/tmp//a.c''
   \<and> example_Match ''%f:%l:%c:%m'' ''stdin:3:4:bad''
       = Some \<lparr>F = ''stdin'', L = 3, C = 4, M = ''bad''\<rparr>
   \<and> lint_match (example_env ''stdin:3:4:bad'') (example_config [''%f:%l:%c:%m''] True 0)
        ''/tmp//a.c'' \<lparr>F = ''stdin'', L = 3, C = 4, M = ''bad''\<rparr> = None"
  by (simp add: example_simps)

section \<open>No lint command\<close>




section \<open>The line is not clamped\<close>

text \<open>
  C10. The claim: the line of a diagnostic is exact integer arithmetic, \<open>L - 1 - k\<close> for
  the match's line \<open>L\<close> and the configured offset \<open>k\<close>, negative whenever \<open>k \<ge> L\<close>, and
  nothing prevents a negative line from being published. The arithmetic is that of Go's
  64-bit \<open>int\<close>, which wraps around, so the line is not always that integer (see the
  theorem after the next two). What holds: when the document is in the store, its URI
  is a file URI, the patterns compile and the command exits with an error, the
  notification publishes the list that \<open>lint\<close> returns, and the diagnostics in it are
  exactly those of the matches, by a compiled pattern, of a line of the output whose
  file resolves to the document's path: each with start and end line \<open>L - 1 - k\<close> in Go's
  arithmetic, whatever its sign. The signed value of that line is the integer
  \<open>L - 1 - k\<close> folded into 64 bits; it is that integer when it fits in 64 bits, and in
  particular when \<open>1 \<le> L \<le> k\<close>, where it is negative.
\<close>

theorem lint_line_is_not_clamped:
  assumes "files h uri = Some f" and "lint_fname env uri = Inr fname"
    and "NewErrorformat env (LintErrorFormats (configFor h uri)) = Inr efms"
    and "CombinedOutput env (lint_argv env (configFor h uri)) (lint_stdin (configFor h uri) f)
           = (b, Some err)"
  shows "\<exists>ds. lint env h uri = Some ds
       \<and> Diagnostics (linter_publish env h uri) = Some ds
       \<and> (\<forall>d. d \<in> set ds \<longleftrightarrow>
             (\<exists>line \<in> set (Split_newline b). \<exists>ef \<in> set efms. \<exists>m path.
                Efm_Match env ef line = Some m
              \<and> Abs env (if LintStdin (configFor h uri) \<and> (F m = ''stdin'' \<or> F m = ''-'')
                          then fname else ToSlash (windows env) (F m)) = Inr path
              \<and> (if windows env then ToLower env (ToSlash (windows env) path)
                  else ToSlash (windows env) path) = fname
              \<and> d = \<lparr>Range =
                       \<lparr>Start = \<lparr>Line = L m - 1 - LintOffset (configFor h uri),
                                  Character = (if C m = 0 then 1 else C m) - 1\<rparr>,
                        End = \<lparr>Line = L m - 1 - LintOffset (configFor h uri),
                                Character = (if C m = 0 then 1 else C m) - 1\<rparr>\<rparr>,
                     Message = M m, Severity = 1\<rparr>))
       \<and> (\<forall>l. sint (l - 1 - LintOffset (configFor h uri))
               = signed_take_bit 63 (sint l - 1 - sint (LintOffset (configFor h uri))))
       \<and> (\<forall>l. - (2 ^ 63) \<le> sint l - 1 - sint (LintOffset (configFor h uri))
              \<and> sint l - 1 - sint (LintOffset (configFor h uri)) < 2 ^ 63
            \<longrightarrow> sint (l - 1 - LintOffset (configFor h uri))
                  = sint l - 1 - sint (LintOffset (configFor h uri)))
       \<and> (\<forall>l. 1 \<le> sint l \<and> sint l \<le> sint (LintOffset (configFor h uri))
            \<longrightarrow> sint (l - 1 - LintOffset (configFor h uri))
                  = sint l - 1 - sint (LintOffset (configFor h uri))
                \<and> sint (l - 1 - LintOffset (configFor h uri)) < 0)"
proof -
  let ?ds = "lint_lines env (configFor h uri) fname efms (Split_newline b) []"
  have l: "lint env h uri = Some ?ds"
    using lint_run [OF assms] by simp
  then have p: "Diagnostics (linter_publish env h uri) = Some ?ds"
    by (simp add: linter_publish_def)
  have s: "\<forall>d. d \<in> set ?ds \<longleftrightarrow>
             (\<exists>line \<in> set (Split_newline b). \<exists>ef \<in> set efms. \<exists>m path.
                Efm_Match env ef line = Some m
              \<and> Abs env (if LintStdin (configFor h uri) \<and> (F m = ''stdin'' \<or> F m = ''-'')
                          then fname else ToSlash (windows env) (F m)) = Inr path
              \<and> (if windows env then ToLower env (ToSlash (windows env) path)
                  else ToSlash (windows env) path) = fname
              \<and> d = \<lparr>Range =
                       \<lparr>Start = \<lparr>Line = L m - 1 - LintOffset (configFor h uri),
                                  Character = (if C m = 0 then 1 else C m) - 1\<rparr>,
                        End = \<lparr>Line = L m - 1 - LintOffset (configFor h uri),
                                Character = (if C m = 0 then 1 else C m) - 1\<rparr>\<rparr>,
                     Message = M m, Severity = 1\<rparr>)"
    unfolding set_lint_lines lint_match_Some_iff by blast
  have w: "\<forall>l. sint (l - 1 - LintOffset (configFor h uri))
               = signed_take_bit 63 (sint l - 1 - sint (LintOffset (configFor h uri)))"
    by (simp add: sint_line_wraps)
  have r: "\<forall>l. - (2 ^ 63) \<le> sint l - 1 - sint (LintOffset (configFor h uri))
              \<and> sint l - 1 - sint (LintOffset (configFor h uri)) < 2 ^ 63
            \<longrightarrow> sint (l - 1 - LintOffset (configFor h uri))
                  = sint l - 1 - sint (LintOffset (configFor h uri))"
    using sint_line_in_range by blast
  have n: "\<forall>l. 1 \<le> sint l \<and> sint l \<le> sint (LintOffset (configFor h uri))
            \<longrightarrow> sint (l - 1 - LintOffset (configFor h uri))
                  = sint l - 1 - sint (LintOffset (configFor h uri))
                \<and> sint (l - 1 - LintOffset (configFor h uri)) < 0"
  proof (intro allI impI)
    fix l :: go_int
    assume a: "1 \<le> sint l \<and> sint l \<le> sint (LintOffset (configFor h uri))"
    then have "sint (l - 1 - LintOffset (configFor h uri))
                 = sint l - 1 - sint (LintOffset (configFor h uri))"
      using sint_line_exact [of l "LintOffset (configFor h uri)"] by blast
    with a show "sint (l - 1 - LintOffset (configFor h uri))
                  = sint l - 1 - sint (LintOffset (configFor h uri))
                \<and> sint (l - 1 - LintOffset (configFor h uri)) < 0"
      by simp
  qed
  from l p s w r n show ?thesis by blast
qed

theorem lint_line_is_not_clamped_witness:
  "files (example_handler (example_config [''%f:%l:%c:%m''] True 5) ''file:///tmp/a.c'')
     ''file:///tmp/a.c'' = Some \<lparr>LanguageId = ''c'', Text = ''int x;''\<rparr>
   \<and> lint_fname (example_env ''stdin:3:4:bad'') ''file:///tmp/a.c'' = Inr ''/tmp/a.c''
   \<and> (\<exists>ds. Diagnostics (linter_publish (example_env ''stdin:3:4:bad'')
                (example_handler (example_config [''%f:%l:%c:%m''] True 5) ''file:///tmp/a.c'')
                ''file:///tmp/a.c'') = Some ds
           \<and> \<lparr>Range = \<lparr>Start = \<lparr>Line = 3 - 1 - 5, Character = 3\<rparr>,
                          End = \<lparr>Line = 3 - 1 - 5, Character = 3\<rparr>\<rparr>,
               Message = ''bad'', Severity = 1\<rparr> \<in> set ds)
   \<and> sint (3 - 1 - 5 :: go_int) = - 3"
proof -
  let ?env = "example_env ''stdin:3:4:bad''"
  let ?cfg = "example_config [''%f:%l:%c:%m''] True 5"
  let ?h = "example_handler ?cfg ''file:///tmp/a.c''"
  let ?f = "\<lparr>LanguageId = ''c'', Text = ''int x;''\<rparr>"
  let ?m = "\<lparr>F = ''stdin'', L = 3, C = 4, M = ''bad''\<rparr>"
  let ?d = "\<lparr>Range = \<lparr>Start = \<lparr>Line = 3 - 1 - 5, Character = 3\<rparr>,
                          End = \<lparr>Line = 3 - 1 - 5, Character = 3\<rparr>\<rparr>,
               Message = ''bad'', Severity = 1 :: go_int\<rparr>"
  have cfg: "configFor ?h ''file:///tmp/a.c'' = ?cfg"
    by (simp add: example_handler_def configFor_def NewHandler_def NewHandler_range_id
        openFile_def updateFile_def)
  have f: "files ?h ''file:///tmp/a.c'' = Some ?f"
    by (simp add: example_handler_def NewHandler_def openFile_def updateFile_def)
  have n: "lint_fname ?env ''file:///tmp/a.c'' = Inr ''/tmp/a.c''"
    by (simp add: lint_fname_def fromURI_def example_env_def example_ParseRequestURI_def
        isWindowsDriveURI_def IsLetter_def ToSlash_def)
  have e: "NewErrorformat ?env (LintErrorFormats (configFor ?h ''file:///tmp/a.c''))
             = Inr [''%f:%l:%c:%m'']"
    by (simp add: cfg) (simp add: example_env_def example_config_def)
  have c: "CombinedOutput ?env (lint_argv ?env (configFor ?h ''file:///tmp/a.c''))
             (lint_stdin (configFor ?h ''file:///tmp/a.c'') ?f)
           = (''stdin:3:4:bad'', Some (LibError ''exit status 1''))"
    by (simp add: cfg) (simp add: example_env_def example_config_def lint_argv_def)
  have k: "LintOffset ?cfg = 5" "LintStdin ?cfg"
    by (simp_all add: example_config_def)
  from lint_line_is_not_clamped [OF f n e c] obtain ds where
    p: "Diagnostics (linter_publish ?env ?h ''file:///tmp/a.c'') = Some ds"
    and s: "\<forall>d. d \<in> set ds \<longleftrightarrow>
             (\<exists>line \<in> set (Split_newline ''stdin:3:4:bad''). \<exists>ef \<in> set [''%f:%l:%c:%m'']. \<exists>m path.
                Efm_Match ?env ef line = Some m
              \<and> Abs ?env (if LintStdin ?cfg \<and> (F m = ''stdin'' \<or> F m = ''-'')
                          then ''/tmp/a.c'' else ToSlash (windows ?env) (F m)) = Inr path
              \<and> (if windows ?env then ToLower ?env (ToSlash (windows ?env) path)
                  else ToSlash (windows ?env) path) = ''/tmp/a.c''
              \<and> d = \<lparr>Range =
                       \<lparr>Start = \<lparr>Line = L m - 1 - LintOffset ?cfg,
                                  Character = (if C m = 0 then 1 else C m) - 1\<rparr>,
                        End = \<lparr>Line = L m - 1 - LintOffset ?cfg,
                                Character = (if C m = 0 then 1 else C m) - 1\<rparr>\<rparr>,
                     Message = M m, Severity = 1\<rparr>)"
    and neg: "\<forall>l. 1 \<le> sint l \<and> sint l \<le> sint (LintOffset ?cfg)
            \<longrightarrow> sint (l - 1 - LintOffset ?cfg) = sint l - 1 - sint (LintOffset ?cfg)
                \<and> sint (l - 1 - LintOffset ?cfg) < 0"
    unfolding cfg by blast
  have line: "''stdin:3:4:bad'' \<in> set (Split_newline ''stdin:3:4:bad'')" by simp
  have ef: "''%f:%l:%c:%m'' \<in> set [''%f:%l:%c:%m'']" by simp
  have m: "Efm_Match ?env ''%f:%l:%c:%m'' ''stdin:3:4:bad'' = Some ?m"
    by (simp add: example_env_def example_Match_def)
  have a: "Abs ?env (if LintStdin ?cfg \<and> (F ?m = ''stdin'' \<or> F ?m = ''-'')
                     then ''/tmp/a.c'' else ToSlash (windows ?env) (F ?m)) = Inr ''/tmp/a.c''"
    by (simp add: k) (simp add: example_env_def)
  have q: "(if windows ?env then ToLower ?env (ToSlash (windows ?env) ''/tmp/a.c'')
            else ToSlash (windows ?env) ''/tmp/a.c'') = ''/tmp/a.c''"
    by (simp add: example_env_def ToSlash_def)
  have d: "?d = \<lparr>Range =
                       \<lparr>Start = \<lparr>Line = L ?m - 1 - LintOffset ?cfg,
                                  Character = (if C ?m = 0 then 1 else C ?m) - 1\<rparr>,
                        End = \<lparr>Line = L ?m - 1 - LintOffset ?cfg,
                                Character = (if C ?m = 0 then 1 else C ?m) - 1\<rparr>\<rparr>,
                     Message = M ?m, Severity = 1\<rparr>"
    by (simp add: k)
  have "?d \<in> set ds"
    unfolding s [rule_format]
    using line ef m a q d by blast
  moreover have "sint (3 - 1 - 5 :: go_int) = - 3"
    using neg [rule_format, of 3] by (simp add: k)
  ultimately show ?thesis using f n p by blast
qed

text \<open>
  With the offset \<open>-2^63\<close> and a match on line 3, the published line is the word
  \<open>2^63 + 2\<close>, whose signed value is \<open>-2^63 + 2\<close>, while the integer \<open>3 - 1 - k\<close> is
  \<open>2^63 + 2\<close>.
\<close>

theorem lint_line_wraps_around:
  "lint (example_env ''stdin:3:4:bad'')
     (example_handler (example_config [''%f:%l:%c:%m''] True (- 9223372036854775808))
        ''file:///tmp/a.c'')
     ''file:///tmp/a.c''
   = Some [\<lparr>Range = \<lparr>Start = \<lparr>Line = 9223372036854775810, Character = 3\<rparr>,
                       End = \<lparr>Line = 9223372036854775810, Character = 3\<rparr>\<rparr>,
            Message = ''bad'', Severity = 1\<rparr>]
   \<and> sint (9223372036854775810 :: go_int) = - 9223372036854775806
   \<and> sint (3 :: go_int) - 1 - sint (- 9223372036854775808 :: go_int) = 9223372036854775810"
  by (simp add: example_simps)

end
